theory Spec2Isabelle
  imports Main "HOL-Library.AList" "HOL-Library.Sublist"
begin

section \<open>Values passed as keyword options\<close>

text \<open>
  The function \<open>download_bilibili_video\<close> of \<open>main.py\<close> takes its options as
  \<open>**kwargs: Any\<close>. The values its docstring documents are integers, booleans and
  strings, and \<open>None\<close> is tested for explicitly, so these four kinds of value are
  modelled. Text is a list of bytes (UTF-8).
\<close>

datatype pyval = PNone | PBool bool | PInt int | PStr string

text \<open>Python's truth value of an object, as tested by \<open>if x:\<close>.\<close>

fun truthy :: "pyval \<Rightarrow> bool" where
  "truthy PNone = False"
| "truthy (PBool b) = b"
| "truthy (PInt i) = (i \<noteq> 0)"
| "truthy (PStr s) = (s \<noteq> [])"

text \<open>Python's \<open>str\<close> of an integer: decimal digits, with a minus sign when negative.\<close>

definition digit_char :: "nat \<Rightarrow> char" where
  "digit_char d = ''0123456789'' ! d"

function str_nat :: "nat \<Rightarrow> string" where
  "str_nat n = (if n < 10 then [digit_char n] else str_nat (n div 10) @ [digit_char (n mod 10)])"
  by pat_completeness auto
termination
  by (relation "measure (\<lambda>n. n)") auto

declare str_nat.simps [simp del]

definition str_int :: "int \<Rightarrow> string" where
  "str_int i = (if i < 0 then CHR ''-'' # str_nat (nat (- i)) else str_nat (nat i))"

fun str_py :: "pyval \<Rightarrow> string" where
  "str_py PNone = ''None''"
| "str_py (PBool b) = (if b then ''True'' else ''False'')"
| "str_py (PInt i) = str_int i"
| "str_py (PStr s) = s"

section \<open>Building the command\<close>

text \<open>
  \<open>kwargs\<close> is a dictionary built from the keyword arguments of the call, in the order
  the caller wrote them; its keys are distinct. It is an association list here, read
  with \<open>map_of\<close>.
\<close>

type_synonym kwargs = "(string \<times> pyval) list"

text \<open>\<open>param_mapping\<close> (lines 109 to 118); a dictionary literal is read in the order written.\<close>

definition param_mapping :: "(string \<times> string) list" where
  "param_mapping =
    [(''video_quality'', ''--video-quality''),
     (''audio_quality'', ''--audio-quality''),
     (''num_workers'', ''--num-workers''),
     (''danmaku_format'', ''--danmaku-format''),
     (''proxy'', ''--proxy''),
     (''sessdata'', ''--sessdata''),
     (''vcodec'', ''--vcodec''),
     (''acodec'', ''--acodec'')]"

text \<open>
  The loop of lines 121 to 124 over the items of \<open>param_mapping\<close>, appending to
  \<open>cmd\<close>: \<open>if param in kwargs and kwargs[param] is not None\<close>.
\<close>

fun add_params :: "(string \<times> string) list \<Rightarrow> kwargs \<Rightarrow> string list \<Rightarrow> string list" where
  "add_params [] kw cmd = cmd"
| "add_params ((param, cmd_param) # rest) kw cmd =
     (case map_of kw param of
        None \<Rightarrow> add_params rest kw cmd
      | Some v \<Rightarrow>
          if v \<noteq> PNone then add_params rest kw (cmd @ [cmd_param, str_py v])
          else add_params rest kw cmd)"

text \<open>\<open>if episodes:\<close> on an \<open>Optional[str]\<close>: neither \<open>None\<close> nor the empty string.\<close>

fun episodes_given :: "string option \<Rightarrow> bool" where
  "episodes_given None = False"
| "episodes_given (Some e) = (e \<noteq> [])"

text \<open>\<open>kwargs.get("overwrite", False)\<close> used as a condition.\<close>

definition overwrite_set :: "kwargs \<Rightarrow> bool" where
  "overwrite_set kw = (case map_of kw ''overwrite'' of None \<Rightarrow> False | Some v \<Rightarrow> truthy v)"

text \<open>
  Lines 96 to 128: the list \<open>cmd\<close> when the last flag has been appended.
  \<open>python_exe\<close> is \<open>sys.executable\<close>.
\<close>

definition build_cmd ::
  "string \<Rightarrow> string \<Rightarrow> string \<Rightarrow> bool \<Rightarrow> string option \<Rightarrow> kwargs \<Rightarrow> string list" where
  "build_cmd python_exe url output_dir batch episodes kw =
     (let cmd = [python_exe, ''-m'', ''yutto'', url, ''--dir'', output_dir];
          cmd = (if batch then cmd @ [''--batch''] else cmd);
          cmd = (case episodes of
                   None \<Rightarrow> cmd
                 | Some e \<Rightarrow> if episodes_given episodes then cmd @ [''--episodes'', e] else cmd);
          cmd = add_params param_mapping kw cmd;
          cmd = (if overwrite_set kw then cmd @ [''--overwrite''] else cmd)
      in cmd)"

section \<open>The file system\<close>

text \<open>
  Line 94 is \<open>Path(output_dir).mkdir(parents=True, exist_ok=True)\<close>. What follows is
  that call of the standard library, on a file system that is a tree of directories and
  other entries. An entry is known by the list of names that leads to it from the root;
  the root is the empty list and is a directory. \<open>File\<close> stands for every entry that
  is not a directory. There are no symbolic links.
\<close>

datatype node = File | Dir

type_synonym filesystem = "string list \<Rightarrow> node option"

datatype py_error =
  FileNotFoundError | FileExistsError | NotADirectoryError | OSError | ValueError

text \<open>
  What else the operating system may refuse, entry by entry: to look an entry up
  (no search permission on the way, a name that is too long) and to create it (no
  write permission, a read-only or full file system, a name that is too long). Both
  are given with the world, and every statement below holds whatever they are.
\<close>

record os_limits =
  no_access :: "string list \<Rightarrow> bool"
  no_create :: "string list \<Rightarrow> bool"

definition entry :: "filesystem \<Rightarrow> string list \<Rightarrow> node option" where
  "entry f q = (if q = [] then Some Dir else f q)"

text \<open>
  One component of a path, from the directory \<open>cur\<close>: \<open>..\<close> leads to the parent
  (the root is its own parent); a name leads to the entry of that name, which must be
  there (\<open>ENOENT\<close> otherwise) and be a directory (\<open>ENOTDIR\<close> otherwise).
\<close>

definition step :: "os_limits \<Rightarrow> filesystem \<Rightarrow> string list \<Rightarrow> string \<Rightarrow> py_error + string list" where
  "step os f cur c =
     (if c = ''..'' then
        (if entry f (butlast cur) = Some Dir then Inr (butlast cur) else Inl FileNotFoundError)
      else if no_access os (cur @ [c]) then Inl OSError
      else (case f (cur @ [c]) of
              None \<Rightarrow> Inl FileNotFoundError
            | Some File \<Rightarrow> Inl NotADirectoryError
            | Some Dir \<Rightarrow> Inr (cur @ [c])))"

fun walk :: "os_limits \<Rightarrow> filesystem \<Rightarrow> string list \<Rightarrow> string list \<Rightarrow> py_error + string list" where
  "walk os f cur [] = Inr cur"
| "walk os f cur (c # cs) =
     (case step os f cur c of Inl e \<Rightarrow> Inl e | Inr q \<Rightarrow> walk os f q cs)"

text \<open>
  The directory a path leads to. \<open>start\<close> is where the path starts: the root for an
  absolute path, the current directory for a relative one.
\<close>

definition resolve :: "os_limits \<Rightarrow> filesystem \<Rightarrow> string list \<Rightarrow> string list \<Rightarrow> py_error + string list" where
  "resolve os f start p =
     (if entry f start = Some Dir then walk os f start p else Inl FileNotFoundError)"

text \<open>
  \<open>Path.is_dir()\<close>: true when the path leads to a directory, false when something on
  the way is missing or is not a directory; another error of the system is raised.
\<close>

definition Path_is_dir :: "os_limits \<Rightarrow> filesystem \<Rightarrow> string list \<Rightarrow> string list \<Rightarrow> py_error + bool" where
  "Path_is_dir os f start p =
     (case resolve os f start p of
        Inr q \<Rightarrow> Inr True
      | Inl e \<Rightarrow> if e = OSError then Inl OSError else Inr False)"

definition is_dir :: "os_limits \<Rightarrow> filesystem \<Rightarrow> string list \<Rightarrow> string list \<Rightarrow> bool" where
  "is_dir os f start p = (Path_is_dir os f start p = Inr True)"

text \<open>
  \<open>os.mkdir\<close>: the path without its last component must lead to a directory; the last
  component is created there as a directory unless it exists (\<open>EEXIST\<close>, also for
  \<open>..\<close> and for the empty path, which is the starting directory) or the system refuses.
\<close>

definition os_mkdir :: "os_limits \<Rightarrow> filesystem \<Rightarrow> string list \<Rightarrow> string list \<Rightarrow> py_error + filesystem" where
  "os_mkdir os f start p =
     (if p = [] then Inl FileExistsError
      else (case resolve os f start (butlast p) of
              Inl e \<Rightarrow> Inl e
            | Inr d \<Rightarrow>
                if last p = ''..'' then Inl FileExistsError
                else if no_access os (d @ [last p]) then Inl OSError
                else if f (d @ [last p]) \<noteq> None then Inl FileExistsError
                else if no_create os (d @ [last p]) then Inl OSError
                else Inr (f(d @ [last p] \<mapsto> Dir))))"

text \<open>
  The handler \<open>except OSError: if not exist_ok or not self.is_dir(): raise\<close> of
  \<open>Path.mkdir\<close>, with \<open>exist_ok\<close> true. A result \<open>Inl (e, f)\<close> is the error raised
  and the file system left behind; \<open>Inr f\<close> is the file system after a normal return.
\<close>

definition except_OSError ::
  "os_limits \<Rightarrow> filesystem \<Rightarrow> string list \<Rightarrow> string list \<Rightarrow> py_error
     \<Rightarrow> py_error \<times> filesystem + filesystem" where
  "except_OSError os f start p e =
     (case Path_is_dir os f start p of
        Inl e' \<Rightarrow> Inl (e', f)
      | Inr b \<Rightarrow> if b then Inr f else Inl (e, f))"

text \<open>\<open>Path.mkdir(parents=False, exist_ok=True)\<close>: \<open>FileNotFoundError\<close> is raised again.\<close>

definition mkdir_exist_ok ::
  "os_limits \<Rightarrow> filesystem \<Rightarrow> string list \<Rightarrow> string list \<Rightarrow> py_error \<times> filesystem + filesystem" where
  "mkdir_exist_ok os f start p =
     (case os_mkdir os f start p of
        Inr f' \<Rightarrow> Inr f'
      | Inl e \<Rightarrow>
          if e = FileNotFoundError then Inl (e, f)
          else except_OSError os f start p e)"

text \<open>
  \<open>Path.mkdir(parents=True, exist_ok=True)\<close>, as the standard library does it: try
  \<open>os.mkdir\<close>; on \<open>FileNotFoundError\<close> make the parent the same way (the parent of a
  path is the path without its last component), then the path itself without
  \<open>parents\<close>; on another error return only if the path is a directory. The path that
  is its own parent is the one with no component. What was created before an error
  stays.
\<close>

function Path_mkdir ::
  "os_limits \<Rightarrow> filesystem \<Rightarrow> string list \<Rightarrow> string list \<Rightarrow> py_error \<times> filesystem + filesystem" where
  "Path_mkdir os f start p =
     (case os_mkdir os f start p of
        Inr f' \<Rightarrow> Inr f'
      | Inl e \<Rightarrow>
          if e = FileNotFoundError then
            (if p = [] then Inl (e, f)
             else (case Path_mkdir os f start (butlast p) of
                     Inl x \<Rightarrow> Inl x
                   | Inr f1 \<Rightarrow> mkdir_exist_ok os f1 start p))
          else except_OSError os f start p e)"
  by pat_completeness auto
termination
  by (relation "measure (\<lambda>(os, f, start, p). length p)") auto

declare Path_mkdir.simps [simp del]

text \<open>A file system is a tree: what exists is in a directory.\<close>

definition well_formed :: "filesystem \<Rightarrow> bool" where
  "well_formed f = (\<forall>q. f q \<noteq> None \<longrightarrow> entry f (butlast q) = Some Dir)"

text \<open>Where a path leads from \<open>cur\<close> once its directories are there.\<close>

fun canon :: "string list \<Rightarrow> string list \<Rightarrow> string list" where
  "canon cur [] = cur"
| "canon cur (c # cs) = canon (if c = ''..'' then butlast cur else cur @ [c]) cs"


text \<open>
  The file system \<open>f'\<close> is \<open>f\<close> with some directories added, each where nothing was
  and the system allowed it.
\<close>

definition grows :: "os_limits \<Rightarrow> filesystem \<Rightarrow> filesystem \<Rightarrow> bool" where
  "grows os f f' =
     (\<forall>q. f' q = f q \<or> (f q = None \<and> f' q = Some Dir \<and> \<not> no_create os q))"

text \<open>
  A way to read a path string, for the examples: whether it starts with \<open>/\<close>, and its
  components at each \<open>/\<close> without the empty ones and \<open>.\<close>, as \<open>pathlib\<close> does on POSIX.
\<close>

fun split_slash :: "string \<Rightarrow> string \<Rightarrow> string list" where
  "split_slash acc [] = [acc]"
| "split_slash acc (c # cs) =
     (if c = CHR ''/'' then acc # split_slash [] cs else split_slash (acc @ [c]) cs)"

definition posix_parts :: "string \<Rightarrow> bool \<times> string list" where
  "posix_parts s =
     (case s of [] \<Rightarrow> False | c # cs \<Rightarrow> c = CHR ''/'',
      filter (\<lambda>c. c \<noteq> [] \<and> c \<noteq> ''.'') (split_slash [] s))"

section \<open>Console, environment and child process\<close>

text \<open>
  What the function does to the outside, in order: a \<open>Print\<close> for each call of
  \<open>print\<close> with the text printed, a \<open>Run\<close> for the call of \<open>subprocess.run\<close> with its
  command and environment.
\<close>

datatype event = Print string | Run "string list" "(string \<times> string) list"

record world =
  fs :: filesystem
  cwd :: "string list"
  limits :: os_limits
  environ :: "(string \<times> string) list"
  events :: "event list"

text \<open>
  What the code reads from its interpreter and platform: \<open>sys.executable\<close>,
  \<open>str(src_path)\<close> (line 8), how \<open>pathlib\<close> reads a path string (whether the path
  is absolute, and its components after the root, none of them empty or \<open>.\<close>), and
  what \<open>subprocess.run\<close> gives for a command, an environment and a file system: the
  error it raises when the child cannot be started, or the child's return code.
\<close>

record runtime =
  sys_executable :: string
  src_path :: string
  path_parts :: "string \<Rightarrow> bool \<times> string list"
  subprocess_run :: "string list \<Rightarrow> (string \<times> string) list \<Rightarrow> filesystem \<Rightarrow> py_error + int"

text \<open>The texts printed, in UTF-8.\<close>

text \<open>Line 131, the text before the URL.\<close>

definition msg_start :: string where
  "msg_start =
     [CHR 0xE5, CHR 0xBC, CHR 0x80, CHR 0xE5, CHR 0xA7, CHR 0x8B, CHR 0xE4, CHR 0xB8, CHR 0x8B, CHR 0xE8, CHR 0xBD, CHR 0xBD] @ '': ''"

text \<open>Line 132, the text before the directory.\<close>

definition msg_dir :: string where
  "msg_dir =
     [CHR 0xE4, CHR 0xB8, CHR 0x8B, CHR 0xE8, CHR 0xBD, CHR 0xBD, CHR 0xE7, CHR 0x9B, CHR 0xAE, CHR 0xE5, CHR 0xBD, CHR 0x95] @ '': ''"

text \<open>Line 133, the text before the mode.\<close>

definition msg_batch :: string where
  "msg_batch =
     [CHR 0xE6, CHR 0x89, CHR 0xB9, CHR 0xE9, CHR 0x87, CHR 0x8F, CHR 0xE6, CHR 0xA8, CHR 0xA1, CHR 0xE5, CHR 0xBC, CHR 0x8F] @ '': ''"

text \<open>Line 133, batch mode on.\<close>

definition msg_enabled :: string where
  "msg_enabled =
     [CHR 0xE5, CHR 0x90, CHR 0xAF, CHR 0xE7, CHR 0x94, CHR 0xA8]"

text \<open>Line 133, batch mode off.\<close>

definition msg_disabled :: string where
  "msg_disabled =
     [CHR 0xE7, CHR 0xA6, CHR 0x81, CHR 0xE7, CHR 0x94, CHR 0xA8]"

text \<open>Line 135, the text before the selection.\<close>

definition msg_episodes :: string where
  "msg_episodes =
     [CHR 0xE9, CHR 0x80, CHR 0x89, CHR 0xE9, CHR 0x9B, CHR 0x86, CHR 0xE8, CHR 0x8C, CHR 0x83, CHR 0xE5, CHR 0x9B, CHR 0xB4] @ '': ''"

text \<open>Line 136, the text before the command.\<close>

definition msg_cmd :: string where
  "msg_cmd =
     [CHR 0xE6, CHR 0x89, CHR 0xA7, CHR 0xE8, CHR 0xA1, CHR 0x8C, CHR 0xE5, CHR 0x91, CHR 0xBD, CHR 0xE4, CHR 0xBB, CHR 0xA4] @ '': ''"

text \<open>Line 147, the download is complete.\<close>

definition msg_done :: string where
  "msg_done =
     [CHR 0xE4, CHR 0xB8, CHR 0x8B, CHR 0xE8, CHR 0xBD, CHR 0xBD, CHR 0xE5, CHR 0xAE, CHR 0x8C, CHR 0xE6, CHR 0x88, CHR 0x90] @ ''!''"

text \<open>Line 149, the download failed, before the return code.\<close>

definition msg_fail :: string where
  "msg_fail =
     [CHR 0xE4, CHR 0xB8, CHR 0x8B, CHR 0xE8, CHR 0xBD, CHR 0xBD, CHR 0xE5, CHR 0xA4, CHR 0xB1, CHR 0xE8, CHR 0xB4, CHR 0xA5, CHR 0xEF, CHR 0xBC, CHR 0x8C, CHR 0xE8, CHR 0xBF, CHR 0x94, CHR 0xE5, CHR 0x9B, CHR 0x9E, CHR 0xE7, CHR 0xA0, CHR 0x81] @ '': ''"

definition print :: "string \<Rightarrow> world \<Rightarrow> world" where
  "print s w = w\<lparr>events := events w @ [Print s]\<rparr>"

text \<open>\<open>' '.join(cmd)\<close>.\<close>

fun join_space :: "string list \<Rightarrow> string" where
  "join_space [] = []"
| "join_space [x] = x"
| "join_space (x # y # ys) = x @ '' '' @ join_space (y # ys)"

text \<open>
  Lines 139 and 140: a copy of \<open>os.environ\<close> with \<open>PYTHONPATH\<close> assigned. Assigning
  to a key of a dictionary replaces its value in place, or adds the key at the end.
\<close>

definition child_env :: "string \<Rightarrow> (string \<times> string) list \<Rightarrow> (string \<times> string) list" where
  "child_env src env =
     AList.update ''PYTHONPATH''
       (src @ '';'' @ (case map_of env ''PYTHONPATH'' of None \<Rightarrow> [] | Some v \<Rightarrow> v)) env"

text \<open>
  Lines 96 to 149, once the directory is there: build the command, print, run the
  child, print the outcome. The result is \<open>Inr ()\<close> when the function returns (it
  returns \<open>None\<close>) and \<open>Inl e\<close> when it raises \<open>e\<close>.
\<close>

definition launch ::
  "runtime \<Rightarrow> string \<Rightarrow> string \<Rightarrow> bool \<Rightarrow> string option \<Rightarrow> kwargs \<Rightarrow> world
     \<Rightarrow> (py_error + unit) \<times> world" where
  "launch rt url output_dir batch episodes kw w =
     (let cmd = build_cmd (sys_executable rt) url output_dir batch episodes kw;
          w = print (msg_start @ url) w;
          w = print (msg_dir @ output_dir) w;
          w = print (msg_batch @ (if batch then msg_enabled else msg_disabled)) w;
          w = (case episodes of
                 None \<Rightarrow> w
               | Some e \<Rightarrow> if episodes_given episodes then print (msg_episodes @ e) w else w);
          w = print (msg_cmd @ join_space cmd) w;
          env = child_env (src_path rt) (environ w);
          w = w\<lparr>events := events w @ [Run cmd env]\<rparr>
      in case subprocess_run rt cmd env (fs w) of
           Inl e \<Rightarrow> (Inl e, w)
         | Inr returncode \<Rightarrow>
             if returncode = 0 then (Inr (), print msg_done w)
             else (Inr (), print (msg_fail @ str_int returncode) w))"

text \<open>
  Line 94: the directory of \<open>output_dir\<close> is made from the root when the path is
  absolute and from the current directory otherwise. For a string that holds a NUL
  character, \<open>os.mkdir\<close> raises \<open>ValueError\<close> before it touches the file
  system, and \<open>Path.mkdir\<close> does not catch it.
\<close>

definition output_start :: "runtime \<Rightarrow> string \<Rightarrow> world \<Rightarrow> string list" where
  "output_start rt output_dir w = (if fst (path_parts rt output_dir) then [] else cwd w)"

definition output_parts :: "runtime \<Rightarrow> string \<Rightarrow> string list" where
  "output_parts rt output_dir = snd (path_parts rt output_dir)"

definition make_output_dir ::
  "runtime \<Rightarrow> string \<Rightarrow> world \<Rightarrow> py_error \<times> filesystem + filesystem" where
  "make_output_dir rt output_dir w =
     (if CHR 0x00 \<in> set output_dir then Inl (ValueError, fs w)
      else Path_mkdir (limits w) (fs w) (output_start rt output_dir w)
             (output_parts rt output_dir))"

text \<open>
  The whole function: line 94, then the rest unless \<open>mkdir\<close> raised. When it raised,
  the function raises the same, in the file system that \<open>mkdir\<close> left.
\<close>

definition download_bilibili_video ::
  "runtime \<Rightarrow> string \<Rightarrow> string \<Rightarrow> bool \<Rightarrow> string option \<Rightarrow> kwargs \<Rightarrow> world
     \<Rightarrow> (py_error + unit) \<times> world" where
  "download_bilibili_video rt url output_dir batch episodes kw w =
     (case make_output_dir rt output_dir w of
        Inl (e, f) \<Rightarrow> (Inl e, w\<lparr>fs := f\<rparr>)
      | Inr f \<Rightarrow> launch rt url output_dir batch episodes kw (w\<lparr>fs := f\<rparr>))"

section \<open>The command, part by part\<close>

text \<open>
  The parts the specification names, for stating what \<open>build_cmd\<close> returns.
\<close>

text \<open>The base invocation: interpreter, \<open>-m\<close>, the tool, the URL and \<open>--dir\<close> with the directory.\<close>

definition base_tokens :: "string \<Rightarrow> string \<Rightarrow> string \<Rightarrow> string list" where
  "base_tokens python_exe url output_dir = [python_exe, ''-m'', ''yutto'', url, ''--dir'', output_dir]"

text \<open>The batch flag.\<close>

definition batch_tokens :: "bool \<Rightarrow> string list" where
  "batch_tokens batch = (if batch then [''--batch''] else [])"

text \<open>The episode selection as the code tests it: a string that is not empty.\<close>

definition episodes_tokens :: "string option \<Rightarrow> string list" where
  "episodes_tokens episodes =
     (case episodes of None \<Rightarrow> [] | Some e \<Rightarrow> if e = [] then [] else [''--episodes'', e])"

text \<open>The episode selection whenever a string is supplied, as the specification words it.\<close>

definition supplied_episodes_tokens :: "string option \<Rightarrow> string list" where
  "supplied_episodes_tokens episodes =
     (case episodes of None \<Rightarrow> [] | Some e \<Rightarrow> [''--episodes'', e])"

text \<open>The flag of an option key: two hyphens, then the key with each underscore as a hyphen.\<close>

definition flag_name :: "string \<Rightarrow> string" where
  "flag_name key = ''--'' @ map (\<lambda>c. if c = CHR ''_'' then CHR ''-'' else c) key"

text \<open>The eight option keys that carry a value, in the order of \<open>param_mapping\<close>.\<close>

definition mapped_keys :: "string list" where
  "mapped_keys = [''video_quality'', ''audio_quality'', ''num_workers'', ''danmaku_format'',
     ''proxy'', ''sessdata'', ''vcodec'', ''acodec'']"

text \<open>What one option key adds to the command: nothing when absent or \<open>None\<close>, else its flag and its value as a string.\<close>

definition option_tokens :: "kwargs \<Rightarrow> string \<Rightarrow> string list" where
  "option_tokens kw key =
     (case map_of kw key of
        None \<Rightarrow> []
      | Some v \<Rightarrow> if v = PNone then [] else [flag_name key, str_py v])"

text \<open>The tokens of all eight keys, in order.\<close>

definition mapped_tokens :: "kwargs \<Rightarrow> string list" where
  "mapped_tokens kw = concat (map (option_tokens kw) mapped_keys)"

text \<open>The overwrite flag.\<close>

definition overwrite_tokens :: "kwargs \<Rightarrow> string list" where
  "overwrite_tokens kw = (if overwrite_set kw then [''--overwrite''] else [])"

text \<open>The option values that reach the command, as strings.\<close>

definition option_values :: "kwargs \<Rightarrow> string list" where
  "option_values kw =
     concat (map (\<lambda>key. case map_of kw key of
                    None \<Rightarrow> []
                  | Some v \<Rightarrow> if v = PNone then [] else [str_py v]) mapped_keys)"

text \<open>The strings of the command that are the caller's (or the interpreter's path), apart from the episode selection: they are copied, not chosen by the builder.\<close>

definition caller_tokens :: "string \<Rightarrow> string \<Rightarrow> string \<Rightarrow> kwargs \<Rightarrow> string list" where
  "caller_tokens python_exe url output_dir kw = [python_exe, url, output_dir] @ option_values kw"

text \<open>The nine option keys the code reads.\<close>

definition recognized_keys :: "string list" where
  "recognized_keys = mapped_keys @ [''overwrite'']"

text \<open>The lines printed before the child is started (lines 131 to 136).\<close>

definition progress_lines :: "string \<Rightarrow> string \<Rightarrow> bool \<Rightarrow> string option \<Rightarrow> string list \<Rightarrow> string list" where
  "progress_lines url output_dir batch episodes cmd =
     [msg_start @ url, msg_dir @ output_dir,
      msg_batch @ (if batch then msg_enabled else msg_disabled)]
     @ (case episodes of None \<Rightarrow> [] | Some e \<Rightarrow> if e = [] then [] else [msg_episodes @ e])
     @ [msg_cmd @ join_space cmd]"

text \<open>The line printed for a return code (lines 146 to 149).\<close>

definition outcome_line :: "int \<Rightarrow> string" where
  "outcome_line returncode = (if returncode = 0 then msg_done else msg_fail @ str_int returncode)"

text \<open>The commands and environments of the children started, in order.\<close>

fun runs :: "event list \<Rightarrow> (string list \<times> (string \<times> string) list) list" where
  "runs [] = []"
| "runs (Print s # es) = runs es"
| "runs (Run cmd env # es) = (cmd, env) # runs es"


section \<open>Examples\<close>

text \<open>
  An interpreter whose children all return \<open>rc\<close>; a file system that holds the
  directory \<open>/home/user\<close> and nothing else; a system that refuses nothing; and a
  world with that file system, that directory as the current one and one environment
  variable.
\<close>

definition example_runtime :: "int \<Rightarrow> runtime" where
  "example_runtime rc =
     \<lparr>sys_executable = ''python'', src_path = ''/app/src'', path_parts = posix_parts,
      subprocess_run = (\<lambda>cmd env f. Inr rc)\<rparr>"

definition example_fs :: filesystem where
  "example_fs = [[''home''] \<mapsto> Dir, [''home'', ''user''] \<mapsto> Dir]"

definition no_limits :: os_limits where
  "no_limits = \<lparr>no_access = (\<lambda>q. False), no_create = (\<lambda>q. False)\<rparr>"

definition example_world :: world where
  "example_world =
     \<lparr>fs = example_fs, cwd = [''home'', ''user''], limits = no_limits,
      environ = [(''PATH'', ''/usr/bin'')], events = []\<rparr>"

text \<open>The options of the specification's example call.\<close>

definition example_options :: kwargs where
  "example_options = [(''video_quality'', PInt 80), (''overwrite'', PBool True)]"

section \<open>Lemmas on the command\<close>

lemma add_params_append:
  "add_params ps kw cmd =
     cmd @ concat (map (\<lambda>(param, cmd_param).
        case map_of kw param of None \<Rightarrow> []
        | Some v \<Rightarrow> if v = PNone then [] else [cmd_param, str_py v]) ps)"
  by (induction ps arbitrary: cmd) (auto split: option.splits)

lemma param_mapping_flags: "param_mapping = map (\<lambda>k. (k, flag_name k)) mapped_keys"
  by (simp add: param_mapping_def mapped_keys_def flag_name_def)

lemma add_params_mapped: "add_params param_mapping kw cmd = cmd @ mapped_tokens kw"
  unfolding add_params_append param_mapping_flags mapped_tokens_def
  by (simp add: comp_def option_tokens_def [abs_def])

lemma build_cmd_layout:
  "build_cmd python_exe url output_dir batch episodes kw =
     base_tokens python_exe url output_dir @ batch_tokens batch @ episodes_tokens episodes
       @ mapped_tokens kw @ overwrite_tokens kw"
  by (cases episodes)
     (simp_all add: build_cmd_def Let_def add_params_mapped base_tokens_def batch_tokens_def
        episodes_tokens_def overwrite_tokens_def)

lemma count_option_tokens:
  "t \<notin> flag_name ` set ks \<Longrightarrow>
     count_list (concat (map (option_tokens kw) ks)) t =
     count_list (concat (map (\<lambda>key. case map_of kw key of
                    None \<Rightarrow> []
                  | Some v \<Rightarrow> if v = PNone then [] else [str_py v]) ks)) t"
  by (induction ks) (auto simp: option_tokens_def split: option.splits)

lemma flag_names: "map flag_name mapped_keys =
   [''--video-quality'', ''--audio-quality'', ''--num-workers'', ''--danmaku-format'',
    ''--proxy'', ''--sessdata'', ''--vcodec'', ''--acodec'']"
  by (simp add: mapped_keys_def flag_name_def)

lemma count_mapped_tokens:
  "t \<notin> set (map flag_name mapped_keys) \<Longrightarrow>
     count_list (mapped_tokens kw) t = count_list (option_values kw) t"
  unfolding mapped_tokens_def option_values_def
  by (rule count_option_tokens) simp

lemma count_overwrite:
  "count_list (build_cmd python_exe url output_dir batch episodes kw) ''--overwrite'' =
     count_list (caller_tokens python_exe url output_dir kw) ''--overwrite''
     + count_list (episodes_tokens episodes) ''--overwrite''
     + (if overwrite_set kw then 1 else 0)"
  by (simp add: build_cmd_layout count_mapped_tokens flag_names base_tokens_def batch_tokens_def
       overwrite_tokens_def caller_tokens_def)

lemma count_episodes:
  "count_list (build_cmd python_exe url output_dir batch episodes kw) ''--episodes'' =
     count_list (caller_tokens python_exe url output_dir kw) ''--episodes''
     + count_list (episodes_tokens episodes) ''--episodes''"
  by (simp add: build_cmd_layout count_mapped_tokens flag_names base_tokens_def batch_tokens_def
       overwrite_tokens_def caller_tokens_def)

lemma count_value:
  "t \<notin> set ([''-m'', ''yutto'', ''--dir'', ''--batch'', ''--overwrite''] @ map flag_name mapped_keys) \<Longrightarrow>
   count_list (build_cmd python_exe url output_dir batch episodes kw) t =
     count_list (caller_tokens python_exe url output_dir kw) t
     + count_list (episodes_tokens episodes) t"
  by (auto simp: build_cmd_layout count_mapped_tokens base_tokens_def batch_tokens_def
       overwrite_tokens_def caller_tokens_def)

lemma map_of_distinct_set:
  "distinct (map fst kw) \<Longrightarrow> distinct (map fst kw') \<Longrightarrow> set kw = set kw' \<Longrightarrow> map_of kw = map_of kw'"
  by (rule map_of_inject_set [THEN iffD2])

lemma build_cmd_map_of:
  "map_of kw = map_of kw' \<Longrightarrow>
   build_cmd python_exe url output_dir batch episodes kw = build_cmd python_exe url output_dir batch episodes kw'"
  by (simp add: build_cmd_layout mapped_tokens_def option_tokens_def [abs_def] overwrite_tokens_def overwrite_set_def)


section \<open>Lemmas on the file system\<close>




lemma grows_entry: "grows os f f' \<Longrightarrow> entry f q = Some Dir \<Longrightarrow> entry f' q = Some Dir"
  unfolding grows_def entry_def by (metis option.distinct(1))

lemma grows_step: "grows os f f' \<Longrightarrow> step os f cur c = Inr q \<Longrightarrow> step os f' cur c = Inr q"
proof -
  assume g: "grows os f f'" and s: "step os f cur c = Inr q"
  show ?thesis
  proof (cases "c = ''..''")
    case True
    with s have "entry f (butlast cur) = Some Dir" "q = butlast cur"
      by (auto simp: step_def split: if_splits)
    with g True show ?thesis by (simp add: step_def grows_entry)
  next
    case False
    with s have a: "\<not> no_access os (cur @ [c])" "f (cur @ [c]) = Some Dir" "q = cur @ [c]"
      by (auto simp: step_def split: if_splits option.splits node.splits)
    with g have "f' (cur @ [c]) = Some Dir"
      unfolding grows_def by (metis option.distinct(1))
    with a False show ?thesis by (simp add: step_def)
  qed
qed

lemma grows_walk: "grows os f f' \<Longrightarrow> walk os f cur p = Inr q \<Longrightarrow> walk os f' cur p = Inr q"
proof (induction p arbitrary: cur)
  case Nil
  then show ?case by simp
next
  case (Cons c cs)
  from Cons.prems(2) obtain d where d: "step os f cur c = Inr d" "walk os f d cs = Inr q"
    by (auto split: sum.splits)
  with Cons.prems(1) have "step os f' cur c = Inr d" by (simp add: grows_step)
  with Cons.IH [OF Cons.prems(1) d(2)] show ?case by simp
qed

lemma grows_resolve:
  "grows os f f' \<Longrightarrow> resolve os f start p = Inr q \<Longrightarrow> resolve os f' start p = Inr q"
  by (auto simp: resolve_def grows_walk grows_entry split: if_splits)




lemma is_dir_resolve: "is_dir os f start p = (\<exists>q. resolve os f start p = Inr q)"
  by (auto simp: is_dir_def Path_is_dir_def split: sum.splits)

lemma grows_is_dir: "grows os f f' \<Longrightarrow> is_dir os f start p \<Longrightarrow> is_dir os f' start p"
  unfolding is_dir_resolve by (auto dest: grows_resolve)











lemma canon_snoc:
  "canon cur (p @ [c]) = (if c = ''..'' then butlast (canon cur p) else canon cur p @ [c])"
  by (induction p arbitrary: cur) auto

lemma step_canon: "step os f cur c = Inr q \<Longrightarrow> q = canon cur [c] \<and> entry f q = Some Dir"
  by (auto simp: step_def entry_def split: if_splits option.splits node.splits)

lemma walk_canon:
  "walk os f cur p = Inr q \<Longrightarrow> entry f cur = Some Dir \<Longrightarrow> q = canon cur p \<and> entry f q = Some Dir"
proof (induction p arbitrary: cur)
  case Nil
  then show ?case by simp
next
  case (Cons c cs)
  from Cons.prems(1) obtain d where d: "step os f cur c = Inr d" "walk os f d cs = Inr q"
    by (auto split: sum.splits)
  from step_canon [OF d(1)] have e: "d = canon cur [c]" "entry f d = Some Dir" by blast+
  from Cons.IH [OF d(2) e(2)] e(1) show ?case by (auto split: if_splits)
qed

lemma resolve_canon:
  "resolve os f start p = Inr q \<Longrightarrow> q = canon start p \<and> entry f q = Some Dir"
  by (auto simp: resolve_def walk_canon split: if_splits)





lemma well_formed_upd:
  "well_formed f \<Longrightarrow> entry f d = Some Dir \<Longrightarrow> f (d @ [c]) = None
     \<Longrightarrow> well_formed (f(d @ [c] \<mapsto> Dir))"
  unfolding well_formed_def entry_def
  by (auto split: if_splits)






lemma os_mkdir_well_formed:
  "os_mkdir os f start p = Inr f' \<Longrightarrow> well_formed f \<Longrightarrow> well_formed f'"
  by (auto simp: os_mkdir_def split: if_splits sum.splits
      dest!: resolve_canon intro: well_formed_upd)








section \<open>Lemmas on printing, the environment and the child\<close>

lemma launch_result:
  "launch rt url output_dir batch episodes kw w =
     (let cmd = build_cmd (sys_executable rt) url output_dir batch episodes kw;
          env = child_env (src_path rt) (environ w);
          evs = events w @ map Print (progress_lines url output_dir batch episodes cmd) @ [Run cmd env]
      in case subprocess_run rt cmd env (fs w) of
           Inl e \<Rightarrow> (Inl e, w\<lparr>events := evs\<rparr>)
         | Inr rc \<Rightarrow> (Inr (), w\<lparr>events := evs @ [Print (outcome_line rc)]\<rparr>))"
  by (cases episodes)
     (simp_all add: launch_def Let_def print_def progress_lines_def outcome_line_def
        split: sum.splits)

lemma download_kwargs:
  "build_cmd (sys_executable rt) url output_dir batch episodes kw =
   build_cmd (sys_executable rt) url output_dir batch episodes kw' \<Longrightarrow>
   download_bilibili_video rt url output_dir batch episodes kw w =
   download_bilibili_video rt url output_dir batch episodes kw' w"
  by (simp add: download_bilibili_video_def launch_def split: sum.splits)

lemma runs_append: "runs (xs @ ys) = runs xs @ runs ys"
  by (induction xs rule: runs.induct) auto

lemma runs_Print: "runs (map Print ls) = []"
  by (induction ls) auto


lemma map_of_child_env:
  "map_of (child_env src env) k =
     (if k = ''PYTHONPATH''
      then Some (src @ '';'' @ (case map_of env ''PYTHONPATH'' of None \<Rightarrow> [] | Some v \<Rightarrow> v))
      else map_of env k)"
  by (simp add: child_env_def update_conv')




section \<open>Lemmas on the options\<close>

lemma build_cmd_tokens_eq:
  assumes "\<And>k. option_tokens kw k = option_tokens kw' k"
    and "overwrite_set kw = overwrite_set kw'"
  shows "build_cmd python_exe url output_dir batch episodes kw =
         build_cmd python_exe url output_dir batch episodes kw'"
proof -
  from assms(1) have "option_tokens kw = option_tokens kw'" by (rule ext)
  with assms(2) show ?thesis
    by (simp add: build_cmd_layout mapped_tokens_def overwrite_tokens_def)
qed

lemma build_cmd_recognized:
  assumes "\<forall>k \<in> set recognized_keys. map_of kw k = map_of kw' k"
  shows "build_cmd python_exe url output_dir batch episodes kw =
         build_cmd python_exe url output_dir batch episodes kw'"
proof -
  from assms have a: "map (option_tokens kw) mapped_keys = map (option_tokens kw') mapped_keys"
    by (intro map_cong refl) (simp add: option_tokens_def recognized_keys_def)
  from assms have b: "overwrite_set kw = overwrite_set kw'"
    by (simp add: overwrite_set_def recognized_keys_def)
  show ?thesis
    unfolding build_cmd_layout mapped_tokens_def overwrite_tokens_def a b ..
qed

lemma map_of_insert_other:
  "k \<noteq> key \<Longrightarrow> map_of (kwa @ (key, v) # kwb) k = map_of (kwa @ kwb) k"
  by (simp add: map_add_def split: option.splits)

section \<open>The claims\<close>

text \<open>
  Claim C1, as the code has it. The command is, in this order: the base invocation
  (interpreter, \<open>-m\<close>, \<open>yutto\<close>, the URL, \<open>--dir\<close> and the directory); \<open>--batch\<close>
  exactly when \<open>batch\<close> is true; \<open>--episodes\<close> and the selection when a selection is
  supplied and is not the empty string; the tokens of the eight mapped options in the
  order of \<open>param_mapping\<close>; the overwrite flag last. For the example call of the
  specification the command is the interpreter, \<open>-m yutto\<close>, the URL, \<open>--dir downloads\<close>,
  \<open>--batch\<close>, \<open>--episodes 1-3\<close>, \<open>--video-quality 80\<close>, \<open>--overwrite\<close>.
\<close>

theorem construction_order:
  "build_cmd python_exe url output_dir batch episodes kw =
     base_tokens python_exe url output_dir @ batch_tokens batch @ episodes_tokens episodes
       @ mapped_tokens kw @ overwrite_tokens kw
   \<and> build_cmd python_exe ''https://example.com/v/1'' ''downloads'' True (Some ''1-3'')
       example_options =
     [python_exe, ''-m'', ''yutto'', ''https://example.com/v/1'', ''--dir'', ''downloads'',
      ''--batch'', ''--episodes'', ''1-3'', ''--video-quality'', ''80'', ''--overwrite'']"
proof
  show "build_cmd python_exe url output_dir batch episodes kw =
     base_tokens python_exe url output_dir @ batch_tokens batch @ episodes_tokens episodes
       @ mapped_tokens kw @ overwrite_tokens kw"
    by (rule build_cmd_layout)
  show "build_cmd python_exe ''https://example.com/v/1'' ''downloads'' True (Some ''1-3'')
       example_options =
     [python_exe, ''-m'', ''yutto'', ''https://example.com/v/1'', ''--dir'', ''downloads'',
      ''--batch'', ''--episodes'', ''1-3'', ''--video-quality'', ''80'', ''--overwrite'']"
    by (simp add: build_cmd_def param_mapping_def overwrite_set_def example_options_def
          str_int_def str_nat.simps digit_char_def)
qed

text \<open>
  Claim C1 as it is worded puts \<open>--episodes\<close> and the selection whenever a selection is
  supplied. With the empty string supplied the code appends neither.
\<close>

theorem construction_order_counterexample:
  "build_cmd ''python'' ''https://example.com/v/1'' ''downloads'' False (Some '''') [] \<noteq>
     base_tokens ''python'' ''https://example.com/v/1'' ''downloads'' @ batch_tokens False
       @ supplied_episodes_tokens (Some '''') @ mapped_tokens [] @ overwrite_tokens []"
  by (simp add: build_cmd_layout base_tokens_def batch_tokens_def episodes_tokens_def
        supplied_episodes_tokens_def)

text \<open>
  Claim C2. The options reach the command only through the eight mapped keys, each adding
  nothing when it is absent or \<open>None\<close> and otherwise its flag (two hyphens and the key
  with hyphens for underscores) followed by \<open>str\<close> of its value. A key outside the nine
  recognized ones changes nothing of what the call does, error or not, wherever it
  stands among the options; a key given as \<open>None\<close> does what the key left out does.
\<close>

theorem option_keys_mapping:
  "build_cmd python_exe url output_dir batch episodes kw =
     base_tokens python_exe url output_dir @ batch_tokens batch @ episodes_tokens episodes
       @ concat (map (option_tokens kw) mapped_keys) @ overwrite_tokens kw
   \<and> map flag_name mapped_keys =
       [''--video-quality'', ''--audio-quality'', ''--num-workers'', ''--danmaku-format'',
        ''--proxy'', ''--sessdata'', ''--vcodec'', ''--acodec'']
   \<and> (map_of kw key = Some v \<and> v \<noteq> PNone \<longrightarrow> option_tokens kw key = [flag_name key, str_py v])
   \<and> (map_of kw key = None \<or> map_of kw key = Some PNone \<longrightarrow> option_tokens kw key = [])
   \<and> (key \<notin> set recognized_keys \<longrightarrow>
        download_bilibili_video rt url output_dir batch episodes (kwa @ (key, v) # kwb) w =
        download_bilibili_video rt url output_dir batch episodes (kwa @ kwb) w)
   \<and> (map_of kw key = None \<longrightarrow>
        download_bilibili_video rt url output_dir batch episodes ((key, PNone) # kw) w =
        download_bilibili_video rt url output_dir batch episodes kw w)"
proof (intro conjI impI)
  show "build_cmd python_exe url output_dir batch episodes kw =
     base_tokens python_exe url output_dir @ batch_tokens batch @ episodes_tokens episodes
       @ concat (map (option_tokens kw) mapped_keys) @ overwrite_tokens kw"
    by (simp add: build_cmd_layout mapped_tokens_def)
  show "map flag_name mapped_keys =
       [''--video-quality'', ''--audio-quality'', ''--num-workers'', ''--danmaku-format'',
        ''--proxy'', ''--sessdata'', ''--vcodec'', ''--acodec'']"
    by (rule flag_names)
  show "option_tokens kw key = [flag_name key, str_py v]" if "map_of kw key = Some v \<and> v \<noteq> PNone"
    using that by (simp add: option_tokens_def)
  show "option_tokens kw key = []" if "map_of kw key = None \<or> map_of kw key = Some PNone"
    using that by (auto simp: option_tokens_def)
  show "download_bilibili_video rt url output_dir batch episodes (kwa @ (key, v) # kwb) w =
        download_bilibili_video rt url output_dir batch episodes (kwa @ kwb) w"
    if "key \<notin> set recognized_keys"
  proof (rule download_kwargs, rule build_cmd_recognized, rule ballI)
    fix k assume "k \<in> set recognized_keys"
    with that have "k \<noteq> key" by auto
    then show "map_of (kwa @ (key, v) # kwb) k = map_of (kwa @ kwb) k"
      by (rule map_of_insert_other)
  qed
  show "download_bilibili_video rt url output_dir batch episodes ((key, PNone) # kw) w =
        download_bilibili_video rt url output_dir batch episodes kw w"
    if "map_of kw key = None"
    using that
    by (intro download_kwargs build_cmd_tokens_eq)
       (simp_all add: option_tokens_def overwrite_set_def)
qed

text \<open>
  Claim C2 on the example options: an unknown key \<open>quality\<close>, the key
  \<open>video_quality\<close> with 80, and the key \<open>proxy\<close>, absent or \<open>None\<close>.
\<close>

theorem option_keys_mapping_witness:
  "''quality'' \<notin> set recognized_keys
   \<and> download_bilibili_video (example_runtime 0) ''https://example.com/v/1'' ''downloads'' True
       (Some ''1-3'') ((''quality'', PInt 5) # example_options) example_world =
     download_bilibili_video (example_runtime 0) ''https://example.com/v/1'' ''downloads'' True
       (Some ''1-3'') example_options example_world
   \<and> map_of example_options ''video_quality'' = Some (PInt 80) \<and> PInt 80 \<noteq> PNone
   \<and> option_tokens example_options ''video_quality'' = [''--video-quality'', ''80'']
   \<and> map_of example_options ''proxy'' = None
   \<and> option_tokens example_options ''proxy'' = []
   \<and> download_bilibili_video (example_runtime 0) ''https://example.com/v/1'' ''downloads'' True
       (Some ''1-3'') ((''proxy'', PNone) # example_options) example_world =
     download_bilibili_video (example_runtime 0) ''https://example.com/v/1'' ''downloads'' True
       (Some ''1-3'') example_options example_world"
proof -
  have a: "''quality'' \<notin> set recognized_keys"
    by (simp add: recognized_keys_def mapped_keys_def)
  have b: "map_of example_options ''video_quality'' = Some (PInt 80) \<and> PInt 80 \<noteq> PNone"
    by (simp add: example_options_def)
  have c: "map_of example_options ''proxy'' = None"
    by (simp add: example_options_def)
  have d: "flag_name ''video_quality'' = ''--video-quality''" "str_py (PInt 80) = ''80''"
    by (simp_all add: flag_name_def str_int_def str_nat.simps digit_char_def)
  note t = option_keys_mapping [where rt = "example_runtime 0"
      and url = "''https://example.com/v/1''" and output_dir = "''downloads''"
      and batch = True and episodes = "Some ''1-3''" and w = example_world
      and kw = example_options and kwa = "[]" and kwb = example_options]
  from t [where key = "''quality''" and v = "PInt 5"] a
  have 1: "download_bilibili_video (example_runtime 0) ''https://example.com/v/1'' ''downloads''
       True (Some ''1-3'') ((''quality'', PInt 5) # example_options) example_world =
     download_bilibili_video (example_runtime 0) ''https://example.com/v/1'' ''downloads'' True
       (Some ''1-3'') example_options example_world"
    by simp
  from t [where key = "''video_quality''" and v = "PInt 80"] b
  have 2: "option_tokens example_options ''video_quality'' =
      [flag_name ''video_quality'', str_py (PInt 80)]"
    by blast
  from t [where key = "''proxy''" and v = "PInt 80"] c
  have 3: "option_tokens example_options ''proxy'' = []"
    and 4: "download_bilibili_video (example_runtime 0) ''https://example.com/v/1'' ''downloads''
       True (Some ''1-3'') ((''proxy'', PNone) # example_options) example_world =
     download_bilibili_video (example_runtime 0) ''https://example.com/v/1'' ''downloads'' True
       (Some ''1-3'') example_options example_world"
    by blast+
  from a b c 1 2 3 4 show ?thesis unfolding d by blast
qed

text \<open>
  Claim C3, as the code has it. The builder appends \<open>--overwrite\<close>, as the last token,
  exactly when the options hold a truthy value for \<open>overwrite\<close>, and appends nothing
  for a false or absent one. The text \<open>--overwrite\<close> occurs in the command once for that
  flag and once more for each string of the caller (interpreter path, URL, directory,
  episode selection, option value) that is this very text; when no such string is, it
  occurs exactly once if the flag is set and not at all otherwise.
\<close>

theorem overwrite_flag:
  "build_cmd python_exe url output_dir batch episodes kw =
     base_tokens python_exe url output_dir @ batch_tokens batch @ episodes_tokens episodes
       @ mapped_tokens kw @ (if overwrite_set kw then [''--overwrite''] else [])
   \<and> (overwrite_set kw \<longleftrightarrow> (\<exists>v. map_of kw ''overwrite'' = Some v \<and> truthy v))
   \<and> count_list (build_cmd python_exe url output_dir batch episodes kw) ''--overwrite'' =
       count_list (caller_tokens python_exe url output_dir kw @ episodes_tokens episodes)
         ''--overwrite''
       + (if overwrite_set kw then 1 else 0)
   \<and> (overwrite_set kw \<longrightarrow>
        last (build_cmd python_exe url output_dir batch episodes kw) = ''--overwrite'')
   \<and> (''--overwrite'' \<notin> set (caller_tokens python_exe url output_dir kw @ episodes_tokens episodes) \<longrightarrow>
        (if overwrite_set kw
         then count_list (build_cmd python_exe url output_dir batch episodes kw) ''--overwrite'' = 1
         else ''--overwrite'' \<notin> set (build_cmd python_exe url output_dir batch episodes kw)))"
proof (intro conjI impI)
  show "build_cmd python_exe url output_dir batch episodes kw =
     base_tokens python_exe url output_dir @ batch_tokens batch @ episodes_tokens episodes
       @ mapped_tokens kw @ (if overwrite_set kw then [''--overwrite''] else [])"
    by (simp add: build_cmd_layout overwrite_tokens_def)
  show "overwrite_set kw \<longleftrightarrow> (\<exists>v. map_of kw ''overwrite'' = Some v \<and> truthy v)"
    by (simp add: overwrite_set_def split: option.splits)
  show c: "count_list (build_cmd python_exe url output_dir batch episodes kw) ''--overwrite'' =
       count_list (caller_tokens python_exe url output_dir kw @ episodes_tokens episodes)
         ''--overwrite''
       + (if overwrite_set kw then 1 else 0)"
    by (simp add: count_overwrite)
  show "last (build_cmd python_exe url output_dir batch episodes kw) = ''--overwrite''"
    if "overwrite_set kw"
    using that by (simp add: build_cmd_layout overwrite_tokens_def)
  show "if overwrite_set kw
         then count_list (build_cmd python_exe url output_dir batch episodes kw) ''--overwrite'' = 1
         else ''--overwrite'' \<notin> set (build_cmd python_exe url output_dir batch episodes kw)"
    if "''--overwrite'' \<notin> set (caller_tokens python_exe url output_dir kw @ episodes_tokens episodes)"
  proof (cases "overwrite_set kw")
    case True
    with that c show ?thesis by simp
  next
    case False
    with that c
    have "count_list (build_cmd python_exe url output_dir batch episodes kw) ''--overwrite'' = 0"
      by simp
    with False show ?thesis by (simp add: count_list_0_iff)
  qed
qed

text \<open>
  Claim C3 as it is worded says that the token \<open>--overwrite\<close> is nowhere in the command
  when the option is absent. With no option at all and the URL \<open>--overwrite\<close>, it is the
  fourth token.
\<close>

theorem overwrite_flag_counterexample:
  "map_of ([] :: kwargs) ''overwrite'' = None
   \<and> ''--overwrite'' \<in> set (build_cmd ''python'' ''--overwrite'' ''downloads'' False None [])"
  by (simp add: build_cmd_layout base_tokens_def)

text \<open>Claim C3 on the example call of the specification.\<close>

theorem overwrite_flag_witness:
  "''--overwrite'' \<notin> set (caller_tokens ''python'' ''https://example.com/v/1'' ''downloads''
       example_options @ episodes_tokens (Some ''1-3''))
   \<and> overwrite_set example_options
   \<and> count_list (build_cmd ''python'' ''https://example.com/v/1'' ''downloads'' True (Some ''1-3'')
        example_options) ''--overwrite'' = 1
   \<and> last (build_cmd ''python'' ''https://example.com/v/1'' ''downloads'' True (Some ''1-3'')
        example_options) = ''--overwrite''"
proof -
  have a: "''--overwrite'' \<notin> set (caller_tokens ''python'' ''https://example.com/v/1'' ''downloads''
       example_options @ episodes_tokens (Some ''1-3''))"
    by (simp add: caller_tokens_def option_values_def mapped_keys_def example_options_def
          episodes_tokens_def str_int_def str_nat.simps digit_char_def)
  have b: "overwrite_set example_options"
    by (simp add: overwrite_set_def example_options_def)
  from overwrite_flag [of "''python''" "''https://example.com/v/1''" "''downloads''" True
      "Some ''1-3''" example_options]
  have "overwrite_set example_options \<longrightarrow>
      last (build_cmd ''python'' ''https://example.com/v/1'' ''downloads'' True (Some ''1-3'')
        example_options) = ''--overwrite''"
    and "''--overwrite'' \<notin> set (caller_tokens ''python'' ''https://example.com/v/1'' ''downloads''
       example_options @ episodes_tokens (Some ''1-3'')) \<longrightarrow>
      (if overwrite_set example_options
       then count_list (build_cmd ''python'' ''https://example.com/v/1'' ''downloads'' True
         (Some ''1-3'') example_options) ''--overwrite'' = 1
       else ''--overwrite'' \<notin> set (build_cmd ''python'' ''https://example.com/v/1''
         ''downloads'' True (Some ''1-3'') example_options))"
    by blast+
  with a b show ?thesis by simp
qed

text \<open>
  Claim C4, as the code has it. With no episode selection the builder appends no
  \<open>--episodes\<close>: the mapped options follow the batch flag at once. With the selection
  \<open>1,3,5\<close> it appends \<open>--episodes\<close> and \<open>1,3,5\<close>, adjacent and in that order, after
  the batch flag. Either text occurs elsewhere in the command only where a string of
  the caller (interpreter path, URL, directory, option value) is that very text; when
  none is, \<open>--episodes\<close> is absent in the first case and each of the two occurs exactly
  once in the second.
\<close>

theorem episodes_selection:
  "build_cmd python_exe url output_dir batch None kw =
     base_tokens python_exe url output_dir @ batch_tokens batch @ mapped_tokens kw
       @ overwrite_tokens kw
   \<and> count_list (build_cmd python_exe url output_dir batch None kw) ''--episodes'' =
       count_list (caller_tokens python_exe url output_dir kw) ''--episodes''
   \<and> build_cmd python_exe url output_dir batch (Some ''1,3,5'') kw =
       base_tokens python_exe url output_dir @ batch_tokens batch @ [''--episodes'', ''1,3,5'']
         @ mapped_tokens kw @ overwrite_tokens kw
   \<and> count_list (build_cmd python_exe url output_dir batch (Some ''1,3,5'') kw) ''--episodes'' =
       count_list (caller_tokens python_exe url output_dir kw) ''--episodes'' + 1
   \<and> count_list (build_cmd python_exe url output_dir batch (Some ''1,3,5'') kw) ''1,3,5'' =
       count_list (caller_tokens python_exe url output_dir kw) ''1,3,5'' + 1
   \<and> (''--episodes'' \<notin> set (caller_tokens python_exe url output_dir kw) \<longrightarrow>
        ''--episodes'' \<notin> set (build_cmd python_exe url output_dir batch None kw)
        \<and> count_list (build_cmd python_exe url output_dir batch (Some ''1,3,5'') kw)
            ''--episodes'' = 1)
   \<and> (''1,3,5'' \<notin> set (caller_tokens python_exe url output_dir kw) \<longrightarrow>
        count_list (build_cmd python_exe url output_dir batch (Some ''1,3,5'') kw) ''1,3,5'' = 1)"
proof -
  have a: "count_list (build_cmd python_exe url output_dir batch None kw) ''--episodes'' =
       count_list (caller_tokens python_exe url output_dir kw) ''--episodes''"
    by (simp add: count_episodes episodes_tokens_def)
  have b: "count_list (build_cmd python_exe url output_dir batch (Some ''1,3,5'') kw) ''--episodes'' =
       count_list (caller_tokens python_exe url output_dir kw) ''--episodes'' + 1"
    by (simp add: count_episodes episodes_tokens_def)
  have c: "count_list (build_cmd python_exe url output_dir batch (Some ''1,3,5'') kw) ''1,3,5'' =
       count_list (caller_tokens python_exe url output_dir kw) ''1,3,5'' + 1"
    by (simp add: count_value flag_names episodes_tokens_def)
  have d: "''--episodes'' \<notin> set (build_cmd python_exe url output_dir batch None kw)"
    if "''--episodes'' \<notin> set (caller_tokens python_exe url output_dir kw)"
    using that a by (simp add: count_list_0_iff [symmetric] del: count_notin)
  show ?thesis
    using a b c d by (simp add: build_cmd_layout episodes_tokens_def)
qed

text \<open>
  Claim C4 as it is worded says that no \<open>--episodes\<close> token is in the command when no
  selection is given. With no selection and the URL \<open>--episodes\<close>, it is the fourth
  token.
\<close>

theorem episodes_selection_counterexample:
  "''--episodes'' \<in> set (build_cmd ''python'' ''--episodes'' ''downloads'' False None [])"
  by (simp add: build_cmd_layout base_tokens_def)

text \<open>Claim C4 on the example URL, directory and options.\<close>

theorem episodes_selection_witness:
  "''--episodes'' \<notin> set (caller_tokens ''python'' ''https://example.com/v/1'' ''downloads''
       example_options)
   \<and> ''1,3,5'' \<notin> set (caller_tokens ''python'' ''https://example.com/v/1'' ''downloads''
       example_options)
   \<and> ''--episodes'' \<notin> set (build_cmd ''python'' ''https://example.com/v/1'' ''downloads'' True
        None example_options)
   \<and> count_list (build_cmd ''python'' ''https://example.com/v/1'' ''downloads'' True
        (Some ''1,3,5'') example_options) ''--episodes'' = 1
   \<and> count_list (build_cmd ''python'' ''https://example.com/v/1'' ''downloads'' True
        (Some ''1,3,5'') example_options) ''1,3,5'' = 1"
proof -
  have a: "''--episodes'' \<notin> set (caller_tokens ''python'' ''https://example.com/v/1''
       ''downloads'' example_options)"
    and b: "''1,3,5'' \<notin> set (caller_tokens ''python'' ''https://example.com/v/1''
       ''downloads'' example_options)"
    by (simp_all add: caller_tokens_def option_values_def mapped_keys_def example_options_def
          str_int_def str_nat.simps digit_char_def)
  from episodes_selection [of "''python''" "''https://example.com/v/1''" "''downloads''" True
      example_options]
  have "''--episodes'' \<notin> set (caller_tokens ''python'' ''https://example.com/v/1''
          ''downloads'' example_options) \<longrightarrow>
        ''--episodes'' \<notin> set (build_cmd ''python'' ''https://example.com/v/1'' ''downloads''
          True None example_options)
        \<and> count_list (build_cmd ''python'' ''https://example.com/v/1'' ''downloads'' True
            (Some ''1,3,5'') example_options) ''--episodes'' = 1"
    and "''1,3,5'' \<notin> set (caller_tokens ''python'' ''https://example.com/v/1''
          ''downloads'' example_options) \<longrightarrow>
        count_list (build_cmd ''python'' ''https://example.com/v/1'' ''downloads'' True
          (Some ''1,3,5'') example_options) ''1,3,5'' = 1"
    by blast+
  with a b show ?thesis by simp
qed






text \<open>
  Claim C7. The command is a function of the interpreter path, the URL, the directory,
  the batch flag, the selection and the options; two option dictionaries with the same
  keys and values, in whatever order the caller wrote them, give the same command; and
  the command handed to the child is that one whatever the file system, the environment
  and the console held before, provided the directory could be made.
\<close>

theorem command_deterministic:
  assumes "distinct (map fst kw)" and "distinct (map fst kw')" and "set kw = set kw'"
  shows "build_cmd (sys_executable rt) url output_dir batch episodes kw =
         build_cmd (sys_executable rt) url output_dir batch episodes kw'
       \<and> map fst (runs (events (snd (download_bilibili_video rt url output_dir batch episodes kw w)))) =
           map fst (runs (events w))
           @ (case make_output_dir rt output_dir w of
                Inl e \<Rightarrow> []
              | Inr f \<Rightarrow> [build_cmd (sys_executable rt) url output_dir batch episodes kw'])"
proof -
  from assms have "map_of kw = map_of kw'" by (rule map_of_distinct_set)
  then have a: "build_cmd (sys_executable rt) url output_dir batch episodes kw =
         build_cmd (sys_executable rt) url output_dir batch episodes kw'"
    by (rule build_cmd_map_of)
  have "map fst (runs (events (snd (download_bilibili_video rt url output_dir batch episodes kw w)))) =
           map fst (runs (events w))
           @ (case make_output_dir rt output_dir w of
                Inl e \<Rightarrow> []
              | Inr f \<Rightarrow> [build_cmd (sys_executable rt) url output_dir batch episodes kw])"
    by (simp add: download_bilibili_video_def launch_result Let_def runs_append runs_Print
          split: sum.splits)
  with a show ?thesis by (simp split: sum.splits)
qed

text \<open>Claim C7 on the example options and the same options in reverse order.\<close>

theorem command_deterministic_witness:
  "distinct (map fst example_options) \<and> distinct (map fst (rev example_options))
   \<and> set example_options = set (rev example_options)
   \<and> build_cmd (sys_executable (example_runtime 0)) ''https://example.com/v/1'' ''downloads''
       True (Some ''1-3'') example_options =
     build_cmd (sys_executable (example_runtime 0)) ''https://example.com/v/1'' ''downloads''
       True (Some ''1-3'') (rev example_options)"
proof -
  have a: "distinct (map fst example_options)" "distinct (map fst (rev example_options))"
    "set example_options = set (rev example_options)"
    by (auto simp: example_options_def)
  from command_deterministic [OF a] a show ?thesis by blast
qed

text \<open>
  Claim C8. The environment of the child has \<open>PYTHONPATH\<close> set to the source directory,
  a semicolon, and the value \<open>PYTHONPATH\<close> had (nothing if it had none); every other
  variable is as in the parent. That environment is the one handed to the child, and the
  parent's own environment is left as it was.
\<close>

theorem child_environment:
  "map_of (child_env src env) ''PYTHONPATH'' =
     Some (src @ '';'' @ (case map_of env ''PYTHONPATH'' of None \<Rightarrow> [] | Some v \<Rightarrow> v))
   \<and> (\<forall>k. k \<noteq> ''PYTHONPATH'' \<longrightarrow> map_of (child_env src env) k = map_of env k)
   \<and> map snd (runs (events (snd (download_bilibili_video rt url output_dir batch episodes kw w)))) =
       map snd (runs (events w))
       @ (case make_output_dir rt output_dir w of
            Inl e \<Rightarrow> []
          | Inr f \<Rightarrow> [child_env (src_path rt) (environ w)])
   \<and> environ (snd (download_bilibili_video rt url output_dir batch episodes kw w)) = environ w"
  by (simp add: map_of_child_env download_bilibili_video_def launch_result Let_def runs_append
        runs_Print split: sum.splits)

text \<open>Claim C8 on an environment with \<open>PATH\<close> and an existing \<open>PYTHONPATH\<close>.\<close>

theorem child_environment_witness:
  "''PATH'' \<noteq> ''PYTHONPATH''
   \<and> map_of (child_env ''/app/src'' [(''PATH'', ''/usr/bin''), (''PYTHONPATH'', ''/opt/lib'')])
       ''PATH'' = Some ''/usr/bin''
   \<and> map_of (child_env ''/app/src'' [(''PATH'', ''/usr/bin''), (''PYTHONPATH'', ''/opt/lib'')])
       ''PYTHONPATH'' = Some ''/app/src;/opt/lib''"
  using child_environment [of "''/app/src''" "[(''PATH'', ''/usr/bin''), (''PYTHONPATH'', ''/opt/lib'')]"]
  by simp

text \<open>
  Claim C9. With the empty string as selection the call does all that the same call
  without a selection does: the command has no \<open>--episodes\<close>, and the lines printed are
  those for the URL, the directory, the batch mode and the command, with no line for
  the selection.
\<close>

theorem empty_episodes_as_absent:
  "download_bilibili_video rt url output_dir batch (Some []) kw w =
     download_bilibili_video rt url output_dir batch None kw w
   \<and> build_cmd python_exe url output_dir batch (Some []) kw =
       base_tokens python_exe url output_dir @ batch_tokens batch @ mapped_tokens kw
         @ overwrite_tokens kw
   \<and> events (snd (launch rt url output_dir batch (Some []) kw w)) =
       events w
       @ [Print (msg_start @ url), Print (msg_dir @ output_dir),
          Print (msg_batch @ (if batch then msg_enabled else msg_disabled)),
          Print (msg_cmd @ join_space (build_cmd (sys_executable rt) url output_dir batch None kw)),
          Run (build_cmd (sys_executable rt) url output_dir batch None kw)
            (child_env (src_path rt) (environ w))]
       @ (case subprocess_run rt (build_cmd (sys_executable rt) url output_dir batch None kw)
                 (child_env (src_path rt) (environ w)) (fs w) of
            Inl e \<Rightarrow> []
          | Inr rc \<Rightarrow> [Print (outcome_line rc)])"
proof (intro conjI)
  have a: "build_cmd e url output_dir batch (Some []) kw = build_cmd e url output_dir batch None kw"
    for e
    by (simp add: build_cmd_def)
  show "download_bilibili_video rt url output_dir batch (Some []) kw w =
     download_bilibili_video rt url output_dir batch None kw w"
    by (simp add: download_bilibili_video_def launch_def a split: sum.splits)
  show "build_cmd python_exe url output_dir batch (Some []) kw =
       base_tokens python_exe url output_dir @ batch_tokens batch @ mapped_tokens kw
         @ overwrite_tokens kw"
    by (simp add: build_cmd_layout episodes_tokens_def)
  show "events (snd (launch rt url output_dir batch (Some []) kw w)) =
       events w
       @ [Print (msg_start @ url), Print (msg_dir @ output_dir),
          Print (msg_batch @ (if batch then msg_enabled else msg_disabled)),
          Print (msg_cmd @ join_space (build_cmd (sys_executable rt) url output_dir batch None kw)),
          Run (build_cmd (sys_executable rt) url output_dir batch None kw)
            (child_env (src_path rt) (environ w))]
       @ (case subprocess_run rt (build_cmd (sys_executable rt) url output_dir batch None kw)
                 (child_env (src_path rt) (environ w)) (fs w) of
            Inl e \<Rightarrow> []
          | Inr rc \<Rightarrow> [Print (outcome_line rc)])"
    by (simp add: launch_result Let_def a progress_lines_def split: sum.splits)
qed



end
